theory Spec2Isabelle
  imports Complex_Main
begin

section \<open>Python values, records and dictionaries\<close>

text \<open>
  Every record of the application is a Python \<^verbatim>\<open>dict\<close>: a row produced by
  \<^verbatim>\<open>csv.DictReader\<close>, or a dictionary literal built from form data. The values are
  strings, \<^verbatim>\<open>None\<close> (a row shorter than the header), an integer (the credits of an
  updated course) or a list of strings (the cells beyond the header, which
  \<^verbatim>\<open>DictReader\<close> stores under the key \<^verbatim>\<open>None\<close>). A key is a field name, or
  \<^verbatim>\<open>None\<close> for that one entry.
\<close>

datatype pyval = PNone | PStr string | PInt int | PList "string list"

type_synonym pykey = "string option"
type_synonym pyrec = "pykey \<rightharpoonup> pyval"

text \<open>\<^verbatim>\<open>r.get(k)\<close>, \<^verbatim>\<open>r.get(k, d)\<close> and \<^verbatim>\<open>k in r\<close>.\<close>

definition rget :: "pyrec \<Rightarrow> string \<Rightarrow> pyval" where
  "rget r k = (case r (Some k) of None \<Rightarrow> PNone | Some v \<Rightarrow> v)"

definition rget_default :: "pyrec \<Rightarrow> string \<Rightarrow> pyval \<Rightarrow> pyval" where
  "rget_default r k d = (case r (Some k) of None \<Rightarrow> d | Some v \<Rightarrow> v)"

definition has_key :: "pyrec \<Rightarrow> string \<Rightarrow> bool" where
  "has_key r k = (r (Some k) \<noteq> None)"

text \<open>Python's truth value of an object, as \<^verbatim>\<open>if x:\<close> and \<^verbatim>\<open>not x\<close> test it.\<close>

fun truthy :: "pyval \<Rightarrow> bool" where
  "truthy PNone = False"
| "truthy (PStr s) = (s \<noteq> [])"
| "truthy (PInt i) = (i \<noteq> 0)"
| "truthy (PList xs) = (xs \<noteq> [])"

text \<open>
  The module-level dictionaries keep insertion order, which the program observes
  (\<^verbatim>\<open>is_faculty_authorized_for_course\<close> returns at the first matching course, and a
  rewrite writes the values in order). A dictionary is therefore an association list
  with distinct keys: assigning to a present key keeps its position, a new key goes
  to the end.
\<close>

type_synonym 'v dict = "(string \<times> 'v) list"

fun dict_set :: "'v dict \<Rightarrow> string \<Rightarrow> 'v \<Rightarrow> 'v dict" where
  "dict_set [] k v = [(k, v)]"
| "dict_set ((k', v') # d) k v =
     (if k' = k then (k, v) # d else (k', v') # dict_set d k v)"

definition dict_pop :: "'v dict \<Rightarrow> string \<Rightarrow> 'v dict" where
  "dict_pop d k = filter (\<lambda>kv. fst kv \<noteq> k) d"

definition dict_has :: "'v dict \<Rightarrow> string \<Rightarrow> bool" where
  "dict_has d k = (map_of d k \<noteq> None)"

definition dict_values :: "'v dict \<Rightarrow> 'v list" where
  "dict_values d = map snd d"

section \<open>CSV files\<close>

text \<open>
  A file is modelled at the level at which the program and the \<^verbatim>\<open>csv\<close> module
  exchange data: a sequence of rows of cells, an empty list of cells being a blank
  line. The text encoding of a row (quoting, line terminators) belongs to the
  library. Reading may fail at any row (the file cannot be opened, a chunk does not
  decode as UTF-8, the \<^verbatim>\<open>csv\<close> module rejects a line): \<open>Broken\<close> stands for a
  position at which the read raises. A file that does not exist is absent from the
  file system; a file of size zero has no rows.
\<close>

datatype line = Cells "string list" | Broken

type_synonym files = "string \<rightharpoonup> line list"

text \<open>
  \<^verbatim>\<open>load_data_from_csv\<close> opens the file in text mode without \<^verbatim>\<open>newline=''\<close>, so
  Python's universal newlines turn every CR LF and every lone CR inside a cell into
  LF before the \<^verbatim>\<open>csv\<close> module sees it.
\<close>

fun universal_newlines :: "string \<Rightarrow> string" where
  "universal_newlines [] = []"
| "universal_newlines [c] = [if c = CHR 0x0D then CHR 0x0A else c]"
| "universal_newlines (c # d # cs) =
     (if c = CHR 0x0D
      then (if d = CHR 0x0A then CHR 0x0A # universal_newlines cs
            else CHR 0x0A # universal_newlines (d # cs))
      else c # universal_newlines (d # cs))"

text \<open>
  \<^verbatim>\<open>csv.DictReader.__next__\<close>: the cells are zipped with the field names (a later
  duplicate name overrides an earlier one), a longer row keeps its surplus cells under
  the key \<^verbatim>\<open>None\<close>, a shorter row gets \<^verbatim>\<open>None\<close> for the remaining names.
\<close>

definition dict_row :: "string list \<Rightarrow> string list \<Rightarrow> pyrec" where
  "dict_row fieldnames row =
     (let d = Map.empty(map Some fieldnames [\<mapsto>] map PStr row);
          lf = length fieldnames;
          lr = length row
      in if lf < lr then d(None \<mapsto> PList (drop lf row))
         else if lr < lf
         then d(map Some (drop lr fieldnames) [\<mapsto>] replicate (lf - lr) PNone)
         else d)"

datatype log_msg =
    FileNotFound | EmptyOrNoHeaders | KeyFieldMissing | RowSkipped | LoadedOk | LoadError

text \<open>
  The flag \<^verbatim>\<open>is_list\<close> selects how a row is stored under its key. The two modes build
  dictionaries of different value types, so the model passes the store operation
  itself: \<open>store_single\<close> is \<^verbatim>\<open>is_list=False\<close>, \<open>store_list\<close> is
  \<^verbatim>\<open>is_list=True\<close>.
\<close>

definition store_single :: "string \<Rightarrow> pyrec \<Rightarrow> pyrec dict \<Rightarrow> pyrec dict" where
  "store_single key row data_dict = dict_set data_dict key row"

definition store_list :: "string \<Rightarrow> pyrec \<Rightarrow> pyrec list dict \<Rightarrow> pyrec list dict" where
  "store_list key row data_dict =
     (case map_of data_dict key of
        None \<Rightarrow> dict_set data_dict key [row]
      | Some rs \<Rightarrow> dict_set data_dict key (rs @ [row]))"

text \<open>
  The loop \<^verbatim>\<open>for row in reader\<close>. A blank line is skipped by \<^verbatim>\<open>DictReader\<close>; a row
  whose key cell is missing is skipped with a warning; a failing read raises into the
  enclosing \<^verbatim>\<open>except Exception\<close>, which logs and returns with the dictionary as the
  loop left it.
\<close>

fun load_rows ::
  "(string \<Rightarrow> pyrec \<Rightarrow> 'v dict \<Rightarrow> 'v dict) \<Rightarrow> string list \<Rightarrow> string \<Rightarrow> 'v dict \<Rightarrow> line list
     \<Rightarrow> 'v dict \<times> log_msg list" where
  "load_rows store fieldnames key_field data_dict [] = (data_dict, [LoadedOk])"
| "load_rows store fieldnames key_field data_dict (Broken # rest) = (data_dict, [LoadError])"
| "load_rows store fieldnames key_field data_dict (Cells cs # rest) =
     (if cs = [] then load_rows store fieldnames key_field data_dict rest
      else let row = dict_row fieldnames (map universal_newlines cs)
           in case row (Some key_field) of
                Some (PStr key) \<Rightarrow>
                  load_rows store fieldnames key_field (store key row data_dict) rest
              | _ \<Rightarrow>
                  (let (d, msgs) = load_rows store fieldnames key_field data_dict rest
                   in (d, RowSkipped # msgs)))"

text \<open>
  \<^verbatim>\<open>load_data_from_csv(filepath, data_dict, key_field, is_list)\<close>. The result is the
  dictionary after the call and what the call printed. The field names are the first
  row of the file, blank or not.
\<close>

definition load_data_from_csv ::
  "files \<Rightarrow> string \<Rightarrow> 'v dict \<Rightarrow> string \<Rightarrow> (string \<Rightarrow> pyrec \<Rightarrow> 'v dict \<Rightarrow> 'v dict)
     \<Rightarrow> 'v dict \<times> log_msg list" where
  "load_data_from_csv fs filepath data_dict key_field store =
     (case fs filepath of
        None \<Rightarrow> (data_dict, [FileNotFound])
      | Some [] \<Rightarrow> (data_dict, [EmptyOrNoHeaders])
      | Some (Broken # rest) \<Rightarrow> (data_dict, [LoadError])
      | Some (Cells hs # rest) \<Rightarrow>
          (let fieldnames = map universal_newlines hs
           in if fieldnames = [] then (data_dict, [EmptyOrNoHeaders])
              else if key_field \<notin> set fieldnames then (data_dict, [KeyFieldMissing])
              else load_rows store fieldnames key_field [] rest))"

section \<open>Strings and numbers of the Python library\<close>

text \<open>
  \<^verbatim>\<open>str.strip()\<close> removes leading and trailing white space; on the bytes of a
  \<open>string\<close> these are TAB, LF, VT, FF, CR, the separators 0x1C to 0x1F and the
  space.
\<close>

definition is_space :: "char \<Rightarrow> bool" where
  "is_space c = (let n = (of_char c :: nat) in (9 \<le> n \<and> n \<le> 13) \<or> (28 \<le> n \<and> n \<le> 32))"

definition strip :: "string \<Rightarrow> string" where
  "strip s = rev (dropWhile is_space (rev (dropWhile is_space s)))"


definition endswith :: "string \<Rightarrow> string \<Rightarrow> bool" where
  "endswith s p = (length p \<le> length s \<and> drop (length s - length p) s = p)"


text \<open>
  \<^verbatim>\<open>str(x)\<close> as \<^verbatim>\<open>csv.writer\<close> applies it to a cell: \<^verbatim>\<open>None\<close> is written as the
  empty string, a string as itself, an integer in decimal. A list is written as its
  \<^verbatim>\<open>repr\<close>, which the last equation gives for cells free of quotes, backslashes and
  control characters; the program never writes one, because lists sit under the key
  \<^verbatim>\<open>None\<close> only and \<^verbatim>\<open>DictWriter\<close> looks up field names.
\<close>

function digits :: "nat \<Rightarrow> string" where
  "digits n = (if n < 10 then [char_of (48 + n)] else digits (n div 10) @ [char_of (48 + n mod 10)])"
  by pat_completeness auto
termination
  by (relation "measure id") auto

declare digits.simps [simp del]

definition str_int :: "int \<Rightarrow> string" where
  "str_int i = (if i < 0 then CHR ''-'' # digits (nat (- i)) else digits (nat i))"

fun join :: "string \<Rightarrow> string list \<Rightarrow> string" where
  "join sep [] = []"
| "join sep [x] = x"
| "join sep (x # y # ys) = x @ sep @ join sep (y # ys)"

fun py_str :: "pyval \<Rightarrow> string" where
  "py_str PNone = []"
| "py_str (PStr s) = s"
| "py_str (PInt i) = str_int i"
| "py_str (PList xs) = ''['' @ join '', '' (map (\<lambda>x. [CHR 0x27] @ x @ [CHR 0x27]) xs) @ '']''"

text \<open>
  \<^verbatim>\<open>float(x)\<close> and \<^verbatim>\<open>int(x)\<close> on strings are builtins of Python, not code of this
  repository: the model takes them as parameters \<open>pf\<close> and \<open>pint\<close>, which return
  \<open>None\<close> where the builtin raises \<^verbatim>\<open>ValueError\<close>. Scores are rational numbers:
  arithmetic is exact, where Python computes in binary floating point, and the
  strings that \<^verbatim>\<open>float\<close> reads as infinities or NaN have no value here.
  \<^verbatim>\<open>float(None)\<close> and \<^verbatim>\<open>float\<close> of a list raise \<^verbatim>\<open>TypeError\<close>.
\<close>

fun py_float :: "(string \<Rightarrow> rat option) \<Rightarrow> pyval \<Rightarrow> rat option" where
  "py_float pf PNone = None"
| "py_float pf (PStr s) = pf s"
| "py_float pf (PInt i) = Some (of_int i)"
| "py_float pf (PList xs) = None"

text \<open>
  \<^verbatim>\<open>round(x)\<close> rounds to the nearest integer, a tie to the even one;
  \<^verbatim>\<open>round(x, 2)\<close> does so at the second decimal.
\<close>

definition py_round :: "rat \<Rightarrow> int" where
  "py_round q =
     (let f = \<lfloor>q\<rfloor>; r = q - of_int f
      in if r < 1 / 2 then f else if 1 / 2 < r then f + 1 else if even f then f else f + 1)"

definition round2 :: "rat \<Rightarrow> rat" where
  "round2 q = of_int (py_round (q * 100)) / 100"

text \<open>
  A reader of unsigned decimal numerals, which agrees with \<^verbatim>\<open>float\<close> and \<^verbatim>\<open>int\<close> on
  every string of ASCII digits such as \<^verbatim>\<open>"85"\<close>, and on strings without any digit such
  as \<^verbatim>\<open>"abc"\<close>, where both raise. It instantiates \<open>pf\<close> and \<open>pint\<close> at concrete
  inputs.
\<close>

definition is_digit :: "char \<Rightarrow> bool" where
  "is_digit c = (let n = (of_char c :: nat) in 48 \<le> n \<and> n \<le> 57)"

definition digits_value :: "string \<Rightarrow> nat option" where
  "digits_value s =
     (if s \<noteq> [] \<and> list_all is_digit s
      then Some (fold (\<lambda>c n. 10 * n + (of_char c - 48)) s 0) else None)"

definition float_of_digits :: "string \<Rightarrow> rat option" where
  "float_of_digits s = map_option of_nat (digits_value s)"


section \<open>Analytics\<close>

subsection \<open>Attendance percentage\<close>

text \<open>
  The student's attendance page (\<^verbatim>\<open>attendance\<close>). The loop keeps three counters and
  the per-subject tallies \<^verbatim>\<open>by_subject\<close>; a record without subject or status is
  skipped. \<^verbatim>\<open>Late\<close> raises \<^verbatim>\<open>late_count\<close> and the subject's \<^verbatim>\<open>present\<close> tally
  (``Late still counts as attended''), and leaves \<^verbatim>\<open>present_count\<close> alone.
\<close>

record att_counts =
  present_count :: nat
  absent_count :: nat
  late_count :: nat
  by_subject :: "(pyval \<times> nat \<times> nat) list"

fun subject_add :: "(pyval \<times> nat \<times> nat) list \<Rightarrow> pyval \<Rightarrow> nat \<Rightarrow> (pyval \<times> nat \<times> nat) list" where
  "subject_add [] subject p = [(subject, p, 1)]"
| "subject_add ((s, n_present, n_total) # rest) subject p =
     (if s = subject then (s, n_present + p, n_total + 1) # rest
      else (s, n_present, n_total) # subject_add rest subject p)"

fun attendance_loop :: "pyrec list \<Rightarrow> att_counts \<Rightarrow> att_counts" where
  "attendance_loop [] c = c"
| "attendance_loop (record # rest) c =
     (let status = rget record ''status''; subject = rget record ''courseName''
      in if \<not> truthy subject \<or> \<not> truthy status then attendance_loop rest c
         else if status = PStr ''Present''
         then attendance_loop rest
                (c\<lparr>present_count := present_count c + 1,
                   by_subject := subject_add (by_subject c) subject 1\<rparr>)
         else if status = PStr ''Absent''
         then attendance_loop rest
                (c\<lparr>absent_count := absent_count c + 1,
                   by_subject := subject_add (by_subject c) subject 0\<rparr>)
         else if status = PStr ''Late''
         then attendance_loop rest
                (c\<lparr>late_count := late_count c + 1,
                   by_subject := subject_add (by_subject c) subject 1\<rparr>)
         else attendance_loop rest (c\<lparr>by_subject := subject_add (by_subject c) subject 0\<rparr>))"

definition attendance_counts :: "pyrec list \<Rightarrow> att_counts" where
  "attendance_counts attendance_log =
     attendance_loop attendance_log
       \<lparr>present_count = 0, absent_count = 0, late_count = 0, by_subject = []\<rparr>"

definition percent :: "nat \<Rightarrow> nat \<Rightarrow> rat" where
  "percent part whole = (if whole > 0 then (of_nat part / of_nat whole) * 100 else 0)"

text \<open>\<^verbatim>\<open>overall_perc\<close> as the page shows it, and the percentage of each subject.\<close>

definition attendance_overall_perc :: "pyrec list \<Rightarrow> int" where
  "attendance_overall_perc attendance_log =
     py_round (percent (present_count (attendance_counts attendance_log)) (length attendance_log))"

definition attendance_subject_summary :: "pyrec list \<Rightarrow> (pyval \<times> int) list" where
  "attendance_subject_summary attendance_log =
     map (\<lambda>(subject, n_present, n_total). (subject, py_round (percent n_present n_total)))
       (by_subject (attendance_counts attendance_log))"

text \<open>
  The faculty's per-student view (\<^verbatim>\<open>view_student\<close>) and the student listing
  (\<^verbatim>\<open>manage_students\<close>) count the records whose status is \<^verbatim>\<open>Present\<close> or
  \<^verbatim>\<open>Late\<close>.
\<close>

definition present_or_late :: "pyrec \<Rightarrow> bool" where
  "present_or_late a = (rget a ''status'' \<in> {PStr ''Present'', PStr ''Late''})"

definition view_student_overall_attendance :: "pyrec list \<Rightarrow> int" where
  "view_student_overall_attendance att_log =
     (let total_c = length att_log; present = length (filter present_or_late att_log)
      in py_round (percent present total_c))"

definition manage_students_attendance :: "pyrec list \<Rightarrow> int" where
  "manage_students_attendance attendance =
     (let present = length (filter present_or_late attendance)
      in py_round (percent present (length attendance)))"

subsection \<open>Average score\<close>

text \<open>
  The three loops over a student's grades. Each skips a record whose score is
  \<^verbatim>\<open>None\<close> and a record whose score does not convert (\<^verbatim>\<open>except (ValueError,
  TypeError): continue\<close>). The loop of \<^verbatim>\<open>grades\<close> and of \<^verbatim>\<open>manage_students\<close>
  counts the scores it adds in \<^verbatim>\<open>valid_grade_count\<close>; the loop of
  \<^verbatim>\<open>student_dashboard\<close> keeps the total only. The tallies per subject and the
  highest and lowest grade, which no average reads, are left out.
\<close>

fun score_loop :: "(string \<Rightarrow> rat option) \<Rightarrow> pyrec list \<Rightarrow> rat \<times> nat \<Rightarrow> rat \<times> nat" where
  "score_loop pf [] acc = acc"
| "score_loop pf (g # gs) (total_score, valid_grade_count) =
     (let score_str = rget g ''score''
      in if score_str = PNone then score_loop pf gs (total_score, valid_grade_count)
         else case py_float pf score_str of
                None \<Rightarrow> score_loop pf gs (total_score, valid_grade_count)
              | Some score \<Rightarrow> score_loop pf gs (total_score + score, valid_grade_count + 1))"

definition student_dashboard_overall_grade :: "(string \<Rightarrow> rat option) \<Rightarrow> pyrec list \<Rightarrow> rat" where
  "student_dashboard_overall_grade pf grades =
     (let total_score = fst (score_loop pf grades (0, 0));
          overall_grade = (if grades \<noteq> [] then total_score / of_nat (length grades) else 0)
      in round2 overall_grade)"

definition grades_overall_grade :: "(string \<Rightarrow> rat option) \<Rightarrow> pyrec list \<Rightarrow> rat" where
  "grades_overall_grade pf grades =
     (let (total_score, valid_grade_count) = score_loop pf grades (0, 0);
          overall_grade =
            (if valid_grade_count > 0 then total_score / of_nat valid_grade_count else 0)
      in round2 overall_grade)"

definition manage_students_grade :: "(string \<Rightarrow> rat option) \<Rightarrow> pyrec list \<Rightarrow> rat" where
  "manage_students_grade pf grades =
     (let (total_score, valid_grade_count) = score_loop pf grades (0, 0);
          overall_grade =
            (if valid_grade_count > 0 then total_score / of_nat valid_grade_count else 0)
      in round2 overall_grade)"

text \<open>The scores that the loops add up, in order.\<close>

definition parsed_scores :: "(string \<Rightarrow> rat option) \<Rightarrow> pyrec list \<Rightarrow> rat list" where
  "parsed_scores pf grades =
     List.map_filter (\<lambda>g. if rget g ''score'' = PNone then None else py_float pf (rget g ''score''))
       grades"

section \<open>The record store, sessions and forms\<close>

text \<open>
  The state of the server: the five module-level dictionaries, the files on disk, the
  paths that cannot be opened for writing (\<^verbatim>\<open>open\<close> raises there), and what
  \<^verbatim>\<open>load_data_from_csv\<close> has printed.
\<close>

record store =
  student_login_data :: "pyrec dict"
  student_profile_data :: "pyrec dict"
  student_grades_data :: "pyrec list dict"
  student_attendance_data :: "pyrec list dict"
  course_data :: "pyrec dict"
  disk :: files
  locked :: "string set"
  printed :: "log_msg list"

record session =
  session_role :: "string option"
  session_user_id :: "string option"
  session_name :: "string option"

text \<open>
  \<^verbatim>\<open>request.form\<close>: field names with their submitted value. \<open>form_get\<close> is
  \<^verbatim>\<open>request.form.get(k, d)\<close>; where the program only tests a value for emptiness, a
  missing field and an empty one behave alike and \<open>d\<close> is the empty string.
\<close>

type_synonym form = "(string \<times> string) list"

definition form_get :: "form \<Rightarrow> string \<Rightarrow> string \<Rightarrow> string" where
  "form_get data k d = (case map_of data k of None \<Rightarrow> d | Some v \<Rightarrow> v)"


definition of_opt :: "string option \<Rightarrow> pyval" where
  "of_opt x = (case x of None \<Rightarrow> PNone | Some s \<Rightarrow> PStr s)"

datatype flash =
    NotLoggedIn
  | MissingCourseOrDate | NoAttendanceData | AttendanceSubmitted | SubmitAttendanceError
  | CourseNotFound | CourseRequiredEmpty | CreditsNotNumber | InvalidFacultyId
  | CourseUpdated | CoursesRewriteError
  | StudentRequiredMissing | PasswordsMismatch | StudentIdEmpty | StudentIdExists | StudentAdded
  | CreateStudentError
  | StudentNotFound | StudentRequiredEmpty | NewPasswordsMismatch | StudentUpdated
  | StudentsRewriteError
  | StudentDeleted | StudentRemovedNoFile
  | NoSelectedFile | InvalidFileType | StudentDataUploaded | UploadError
  | MissingCourseOrStudent | NotAuthorizedForCourse | StudentDoesNotExist | AlreadyAssociated
  | StudentEnrolled | EnrollError

definition check_faculty_auth :: "session \<Rightarrow> bool" where
  "check_faculty_auth sess = (session_role sess = Some ''faculty'')"


definition COURSES_CSV :: string where "COURSES_CSV = ''courses.csv''"
definition STUDENTS_CSV :: string where "STUDENTS_CSV = ''students.csv''"
definition ATTENDANCE_CSV :: string where "ATTENDANCE_CSV = ''attendance.csv''"


definition STUDENT_HEADERS :: "string list" where
  "STUDENT_HEADERS = [''studentId'', ''password'', ''firstName'', ''lastName'', ''email'', ''major'',
                      ''program'', ''gpa'', ''enrollmentDate'', ''dob'']"

definition ATTENDANCE_HEADERS :: "string list" where
  "ATTENDANCE_HEADERS = [''studentId'', ''courseName'', ''date'', ''status'', ''instructor'']"

subsection \<open>Writing CSV files\<close>

text \<open>
  \<^verbatim>\<open>csv.DictWriter(f, fieldnames, extrasaction='ignore')\<close>: a row is the values of the
  field names in order, the empty string for a name the record lacks.
\<close>

definition row_cells :: "string list \<Rightarrow> pyrec \<Rightarrow> string list" where
  "row_cells fieldnames rowdict =
     map (\<lambda>key. py_str (rget_default rowdict key (PStr []))) fieldnames"

definition write_row :: "string list \<Rightarrow> pyrec \<Rightarrow> line" where
  "write_row fieldnames rowdict = Cells (row_cells fieldnames rowdict)"

text \<open>A file opened with mode \<^verbatim>\<open>'w'\<close>: header, then every record.\<close>

definition rewrite_csv :: "files \<Rightarrow> string \<Rightarrow> string list \<Rightarrow> pyrec list \<Rightarrow> files" where
  "rewrite_csv fs path headers rows = fs(path \<mapsto> Cells headers # map (write_row headers) rows)"

text \<open>
  A file opened with mode \<^verbatim>\<open>'a'\<close>: the header goes first when the file did not exist
  or was empty.
\<close>

definition append_csv :: "files \<Rightarrow> string \<Rightarrow> string list \<Rightarrow> pyrec list \<Rightarrow> files" where
  "append_csv fs path headers rows =
     (let old = (case fs path of None \<Rightarrow> [] | Some ls \<Rightarrow> ls);
          write_header = (fs path = None \<or> fs path = Some [])
      in fs(path \<mapsto> old @ (if write_header then [Cells headers] else []) @ map (write_row headers) rows))"

text \<open>
  The headers for a write to a file that exists: those of a non-empty file when they
  contain every default header (\<^verbatim>\<open>next(csv.reader(f))\<close>, which raises when the read
  fails: \<open>None\<close>), the default headers otherwise.
\<close>

definition choose_headers :: "string list \<Rightarrow> line list \<Rightarrow> string list option" where
  "choose_headers headers old =
     (case old of
        [] \<Rightarrow> Some headers
      | Broken # rest \<Rightarrow> None
      | Cells csv_headers # rest \<Rightarrow>
          Some (if list_all (\<lambda>h. h \<in> set csv_headers) headers then csv_headers else headers))"

section \<open>Request handlers\<close>

subsection \<open>Courses\<close>

text \<open>\<^verbatim>\<open>is_faculty_authorized_for_course(faculty_id, course_name)\<close>.\<close>

fun authorized_loop :: "pyrec dict \<Rightarrow> pyval \<Rightarrow> pyval \<Rightarrow> bool" where
  "authorized_loop [] faculty_id course_name = True"
| "authorized_loop ((code, details) # rest) faculty_id course_name =
     (let cn = rget details ''courseName''
      in if truthy cn \<and> cn = course_name
         then (let assigned = rget details ''facultyId''
               in if truthy assigned then assigned = faculty_id else True)
         else authorized_loop rest faculty_id course_name)"

definition is_faculty_authorized_for_course :: "pyrec dict \<Rightarrow> pyval \<Rightarrow> pyval \<Rightarrow> bool" where
  "is_faculty_authorized_for_course courses faculty_id course_name =
     (if \<not> truthy faculty_id \<or> \<not> truthy course_name then False
      else authorized_loop courses faculty_id course_name)"








subsection \<open>Students\<close>

definition login_entry :: "pyval \<Rightarrow> pyrec" where
  "login_entry pw = [Some ''password'' \<mapsto> pw, Some ''role'' \<mapsto> PStr ''student'']"

text \<open>
  \<^verbatim>\<open>create_student\<close>. The record takes every standard header from the form, with
  defaults for major, program and gpa. The row is appended to \<^verbatim>\<open>students.csv\<close>
  first; any exception there (the header cannot be read, the file cannot be opened)
  reaches the outer handler before memory is touched. The profile is stored under the
  stripped id, the record keeps the id as submitted.
\<close>

definition student_record :: "form \<Rightarrow> pyrec" where
  "student_record data =
     [Some ''studentId'' \<mapsto> PStr (form_get data ''studentId'' []),
      Some ''password'' \<mapsto> PStr (form_get data ''password'' []),
      Some ''firstName'' \<mapsto> PStr (form_get data ''firstName'' []),
      Some ''lastName'' \<mapsto> PStr (form_get data ''lastName'' []),
      Some ''email'' \<mapsto> PStr (form_get data ''email'' []),
      Some ''major'' \<mapsto>
        PStr (if form_get data ''major'' [] = [] then ''Undeclared'' else form_get data ''major'' []),
      Some ''program'' \<mapsto>
        PStr (if form_get data ''program'' [] = [] then ''Undeclared'' else form_get data ''program'' []),
      Some ''gpa'' \<mapsto>
        PStr (if form_get data ''gpa'' [] = [] then ''0.0'' else form_get data ''gpa'' []),
      Some ''enrollmentDate'' \<mapsto> PStr (form_get data ''enrollmentDate'' []),
      Some ''dob'' \<mapsto> PStr (form_get data ''dob'' [])]"

definition create_student :: "store \<Rightarrow> session \<Rightarrow> form \<Rightarrow> store \<times> flash" where
  "create_student st sess data =
     (if \<not> check_faculty_auth sess then (st, NotLoggedIn)
      else if \<not> list_all (\<lambda>f. strip (form_get data f []) \<noteq> [])
                  [''studentId'', ''password'', ''firstName'', ''lastName'', ''email'',
                   ''confirmPassword'']
      then (st, StudentRequiredMissing)
      else if form_get data ''password'' [] \<noteq> form_get data ''confirmPassword'' []
      then (st, PasswordsMismatch)
      else
        let sid = strip (form_get data ''studentId'' [])
        in if sid = [] then (st, StudentIdEmpty)
           else if dict_has (student_profile_data st) sid then (st, StudentIdExists)
           else
             let record = student_record data
             in case choose_headers STUDENT_HEADERS
                       (case disk st STUDENTS_CSV of None \<Rightarrow> [] | Some old \<Rightarrow> old) of
                  None \<Rightarrow> (st, CreateStudentError)
                | Some existing_h \<Rightarrow>
                    if STUDENTS_CSV \<in> locked st then (st, CreateStudentError)
                    else
                      (st\<lparr>disk := append_csv (disk st) STUDENTS_CSV existing_h [record],
                          student_profile_data := dict_set (student_profile_data st) sid record,
                          student_login_data :=
                            dict_set (student_login_data st) sid
                              (login_entry (PStr (form_get data ''password'' [])))\<rparr>,
                       StudentAdded))"

text \<open>
  \<^verbatim>\<open>update_student(student_id)\<close>. The stored profile is replaced by a record of the
  ten standard fields taken from the form; a blank password field keeps the old
  password. The login entry gets the same password. Then \<^verbatim>\<open>students.csv\<close> is
  rewritten; a failure there is reported and memory stays updated.
\<close>

definition update_student :: "store \<Rightarrow> session \<Rightarrow> string \<Rightarrow> form \<Rightarrow> store \<times> flash" where
  "update_student st sess student_id data =
     (if \<not> check_faculty_auth sess then (st, NotLoggedIn)
      else case map_of (student_profile_data st) student_id of
        None \<Rightarrow> (st, StudentNotFound)
      | Some original_student \<Rightarrow>
          if original_student = Map.empty then (st, StudentNotFound)
          else
            let firstName = strip (form_get data ''firstName'' []);
                lastName = strip (form_get data ''lastName'' []);
                email = strip (form_get data ''email'' []);
                dob = form_get data ''dob'' [];
                enrollmentDate = form_get data ''enrollmentDate'' [];
                major = strip (form_get data ''major'' ''Undeclared'');
                program = strip (form_get data ''program'' ''Undeclared'');
                gpa = strip (form_get data ''gpa'' ''0.0'');
                new_password = form_get data ''password'' [];
                confirm_password = form_get data ''confirmPassword'' []
            in if firstName = [] \<or> lastName = [] \<or> email = [] \<or> enrollmentDate = [] \<or> dob = []
               then (st, StudentRequiredEmpty)
               else if new_password \<noteq> [] \<and> new_password \<noteq> confirm_password
               then (st, NewPasswordsMismatch)
               else
                 let password = (if new_password \<noteq> [] then PStr new_password
                                 else rget original_student ''password'');
                     updated_data =
                       [Some ''studentId'' \<mapsto> PStr student_id,
                        Some ''firstName'' \<mapsto> PStr firstName,
                        Some ''lastName'' \<mapsto> PStr lastName,
                        Some ''email'' \<mapsto> PStr email,
                        Some ''dob'' \<mapsto> PStr dob,
                        Some ''enrollmentDate'' \<mapsto> PStr enrollmentDate,
                        Some ''major'' \<mapsto> PStr major,
                        Some ''program'' \<mapsto> PStr program,
                        Some ''gpa'' \<mapsto> PStr gpa,
                        Some ''password'' \<mapsto> password];
                     st1 = st\<lparr>student_profile_data :=
                                 dict_set (student_profile_data st) student_id updated_data,
                               student_login_data :=
                                 (case map_of (student_login_data st) student_id of
                                    Some login \<Rightarrow>
                                      dict_set (student_login_data st) student_id
                                        (login(Some ''password'' \<mapsto> password))
                                  | None \<Rightarrow>
                                      dict_set (student_login_data st) student_id
                                        (login_entry password))\<rparr>;
                     all_students = dict_values (student_profile_data st1)
                 in (case choose_headers STUDENT_HEADERS
                            (case disk st1 STUDENTS_CSV of None \<Rightarrow> [] | Some old \<Rightarrow> old) of
                       None \<Rightarrow> (st1, StudentsRewriteError)
                     | Some headers \<Rightarrow>
                         if STUDENTS_CSV \<in> locked st1 then (st1, StudentsRewriteError)
                         else (st1\<lparr>disk := rewrite_csv (disk st1) STUDENTS_CSV headers all_students\<rparr>,
                               StudentUpdated)))"

text \<open>
  \<^verbatim>\<open>delete_student(student_id)\<close>. The four dictionaries drop the id first. The file is
  rewritten only when it exists.
\<close>

definition delete_student :: "store \<Rightarrow> session \<Rightarrow> string \<Rightarrow> store \<times> flash" where
  "delete_student st sess student_id =
     (if \<not> check_faculty_auth sess then (st, NotLoggedIn)
      else
        let st1 = st\<lparr>student_profile_data := dict_pop (student_profile_data st) student_id,
                      student_login_data := dict_pop (student_login_data st) student_id,
                      student_grades_data := dict_pop (student_grades_data st) student_id,
                      student_attendance_data := dict_pop (student_attendance_data st) student_id\<rparr>;
            csv_path = ''students.csv''
        in case disk st1 csv_path of
             None \<Rightarrow> (st1, StudentRemovedNoFile)
           | Some old \<Rightarrow>
               (let students = dict_values (student_profile_data st1)
                in case choose_headers STUDENT_HEADERS old of
                     None \<Rightarrow> (st1, StudentsRewriteError)
                   | Some headers \<Rightarrow>
                       if csv_path \<in> locked st1 then (st1, StudentsRewriteError)
                       else (st1\<lparr>disk := rewrite_csv (disk st1) csv_path headers students\<rparr>,
                             StudentDeleted)))"

text \<open>
  \<^verbatim>\<open>upload_student_data\<close>. The upload is saved under the upload folder, loaded into
  the profiles, and the logins are rebuilt from the profiles that have a password
  key; the saved file is removed. When the upload cannot be saved, the handler reports
  an error and removes whatever file had that path. \<^verbatim>\<open>secure_filename\<close> is a function of werkzeug and
  a parameter here. The upload is a file name with its content, or nothing.
\<close>

definition upload_logins :: "pyrec dict \<Rightarrow> pyrec dict" where
  "upload_logins profiles =
     fold (\<lambda>(student_id, profile) logins.
             if has_key profile ''password''
             then dict_set logins student_id (login_entry (rget profile ''password''))
             else logins)
          profiles []"

definition upload_student_data ::
  "(string \<Rightarrow> string) \<Rightarrow> store \<Rightarrow> session \<Rightarrow> (string \<times> line list) option \<Rightarrow> store \<times> flash" where
  "upload_student_data secure_filename st sess file =
     (if \<not> check_faculty_auth sess then (st, NotLoggedIn)
      else case file of
        None \<Rightarrow> (st, NoSelectedFile)
      | Some (filename, content) \<Rightarrow>
          if filename = [] then (st, NoSelectedFile)
          else if endswith filename ''.csv''
          then
            let filepath = ''uploads/'' @ secure_filename filename
            in if filepath \<in> locked st
               then (st\<lparr>disk := (disk st)(filepath := None)\<rparr>, UploadError)
               else
                 let saved = (disk st)(filepath \<mapsto> content);
                     (profiles, msgs) =
                       load_data_from_csv saved filepath (student_profile_data st) ''studentId''
                         store_single
                 in (st\<lparr>student_profile_data := profiles,
                        student_login_data := upload_logins profiles,
                        disk := saved(filepath := None),
                        printed := printed st @ msgs\<rparr>,
                     StudentDataUploaded)
          else (st, InvalidFileType))"

text \<open>
  The start of the server: the four files are loaded, and the logins are rebuilt from
  the profiles whose password is not empty.
\<close>

definition startup_logins :: "pyrec dict \<Rightarrow> pyrec dict" where
  "startup_logins profiles =
     fold (\<lambda>(student_id, profile) logins.
             if truthy (rget profile ''password'')
             then dict_set logins student_id (login_entry (rget profile ''password''))
             else logins)
          profiles []"

definition startup :: "store \<Rightarrow> store" where
  "startup st =
     (let (profiles, m1) =
            load_data_from_csv (disk st) ''students.csv'' (student_profile_data st) ''studentId''
              store_single;
          (grades, m2) =
            load_data_from_csv (disk st) ''grades.csv'' (student_grades_data st) ''studentId''
              store_list;
          (attendance, m3) =
            load_data_from_csv (disk st) ''attendance.csv'' (student_attendance_data st)
              ''studentId'' store_list;
          (courses, m4) =
            load_data_from_csv (disk st) COURSES_CSV (course_data st) ''courseCode'' store_single
      in st\<lparr>student_profile_data := profiles,
            student_login_data := startup_logins profiles,
            student_grades_data := grades,
            student_attendance_data := attendance,
            course_data := courses,
            printed := printed st @ m1 @ m2 @ m3 @ m4\<rparr>)"

subsection \<open>Attendance\<close>




definition attendance_record :: "string \<Rightarrow> string \<Rightarrow> string \<Rightarrow> string \<Rightarrow> pyval \<Rightarrow> pyrec" where
  "attendance_record student_id course_name attendance_date status instructor_name =
     [Some ''studentId'' \<mapsto> PStr student_id,
      Some ''courseName'' \<mapsto> PStr course_name,
      Some ''date'' \<mapsto> PStr attendance_date,
      Some ''status'' \<mapsto> PStr status,
      Some ''instructor'' \<mapsto> instructor_name]"




text \<open>
  \<^verbatim>\<open>enroll_student\<close> adds a placeholder attendance record for today; the date is a
  parameter.
\<close>

definition enroll_student :: "string \<Rightarrow> store \<Rightarrow> session \<Rightarrow> form \<Rightarrow> store \<times> flash" where
  "enroll_student today_date st sess data =
     (if \<not> check_faculty_auth sess then (st, NotLoggedIn)
      else
        let faculty_id = of_opt (session_user_id sess);
            faculty_name = (case session_name sess of None \<Rightarrow> ''?'' | Some n \<Rightarrow> n);
            course_name = form_get data ''course_name'' [];
            student_id = form_get data ''student_id_to_add'' []
        in if course_name = [] \<or> student_id = [] then (st, MissingCourseOrStudent)
           else if \<not> is_faculty_authorized_for_course (course_data st) faculty_id (PStr course_name)
           then (st, NotAuthorizedForCourse)
           else if \<not> dict_has (student_profile_data st) student_id then (st, StudentDoesNotExist)
           else
             let grades = (case map_of (student_grades_data st) student_id of
                             None \<Rightarrow> [] | Some gs \<Rightarrow> gs);
                 existing = (case map_of (student_attendance_data st) student_id of
                               None \<Rightarrow> [] | Some rs \<Rightarrow> rs);
                 has_grade = list_ex (\<lambda>g. rget g ''courseName'' = PStr course_name) grades;
                 has_attendance = list_ex (\<lambda>a. rget a ''courseName'' = PStr course_name) existing
             in if has_grade \<or> has_attendance then (st, AlreadyAssociated)
                else
                  let new_record = attendance_record student_id course_name today_date ''Present''
                                     (PStr faculty_name)
                  in if ATTENDANCE_CSV \<in> locked st then (st, EnrollError)
                     else
                       (st\<lparr>disk := append_csv (disk st) ATTENDANCE_CSV ATTENDANCE_HEADERS [new_record],
                           student_attendance_data :=
                             dict_set (student_attendance_data st) student_id
                               (existing @ [new_record])\<rparr>,
                        StudentEnrolled))"

section \<open>Invariants of the store\<close>

text \<open>
  The keys of a dictionary are distinct. The logins are in step with the profiles
  when every login entry belongs to a profile and holds a password that is the
  password stored in that profile.
\<close>

definition dict_ok :: "'v dict \<Rightarrow> bool" where
  "dict_ok d = distinct (map fst d)"





definition entry_ok :: "pyrec dict \<Rightarrow> string \<times> pyrec \<Rightarrow> bool" where
  "entry_ok profiles e =
     (case map_of profiles (fst e) of
        None \<Rightarrow> False
      | Some profile \<Rightarrow>
          (snd e) (Some ''password'') \<noteq> None \<and>
          (snd e) (Some ''password'') = profile (Some ''password''))"

definition passwords_synced :: "pyrec dict \<Rightarrow> pyrec dict \<Rightarrow> bool" where
  "passwords_synced profiles logins = list_all (entry_ok profiles) logins"

definition login_synced :: "store \<Rightarrow> bool" where
  "login_synced st =
     (dict_ok (student_profile_data st) \<and> dict_ok (student_login_data st) \<and>
      passwords_synced (student_profile_data st) (student_login_data st))"




section \<open>Example data\<close>

text \<open>
  A faculty session and a small store, used where a statement is evaluated at a
  concrete state: one student with a profile that carries a column beyond the standard
  headers, one grade, one attendance record, and one course that no grade or
  attendance record refers to.
\<close>

definition faculty_session :: session where
  "faculty_session =
     \<lparr>session_role = Some ''faculty'', session_user_id = Some ''prof_davis'',
      session_name = Some ''Prof. Davis''\<rparr>"

definition example_profile :: pyrec where
  "example_profile =
     [Some ''studentId'' \<mapsto> PStr ''S1'', Some ''password'' \<mapsto> PStr ''pw1'',
      Some ''firstName'' \<mapsto> PStr ''Ann'', Some ''lastName'' \<mapsto> PStr ''Lee'',
      Some ''email'' \<mapsto> PStr ''ann@x.org'', Some ''major'' \<mapsto> PStr ''CS'',
      Some ''program'' \<mapsto> PStr ''BSc'', Some ''gpa'' \<mapsto> PStr ''3.5'',
      Some ''enrollmentDate'' \<mapsto> PStr ''2023-09-01'', Some ''dob'' \<mapsto> PStr ''2004-05-06'',
      Some ''phone'' \<mapsto> PStr ''555-0100'']"

definition example_store :: store where
  "example_store =
     \<lparr>student_login_data = [(''S1'', login_entry (PStr ''pw1''))],
      student_profile_data = [(''S1'', example_profile)],
      student_grades_data =
        [(''S1'', [[Some ''studentId'' \<mapsto> PStr ''S1'', Some ''courseName'' \<mapsto> PStr ''Math'',
                    Some ''score'' \<mapsto> PStr ''85'']])],
      student_attendance_data =
        [(''S1'', [attendance_record ''S1'' ''Math'' ''2024-01-08'' ''Present'' (PStr ''Prof. Davis'')])],
      course_data =
        [(''CS101'', [Some ''courseCode'' \<mapsto> PStr ''CS101'', Some ''courseName'' \<mapsto> PStr ''Algorithms'',
                      Some ''description'' \<mapsto> PStr [], Some ''instructor'' \<mapsto> PStr ''Prof. Davis'',
                      Some ''semester'' \<mapsto> PStr ''Fall'', Some ''credits'' \<mapsto> PStr ''3'',
                      Some ''facultyId'' \<mapsto> PStr ''prof_davis''])],
      disk = Map.empty, locked = {}, printed = []\<rparr>"

definition new_student_form :: form where
  "new_student_form =
     [(''studentId'', ''S2''), (''password'', ''pw2''), (''confirmPassword'', ''pw2''),
      (''firstName'', ''Bo''), (''lastName'', ''Kim''), (''email'', ''bo@x.org''),
      (''enrollmentDate'', ''2024-01-10''), (''dob'', ''2005-02-03'')]"

definition blank_password_form :: form where
  "blank_password_form =
     [(''firstName'', ''Ann''), (''lastName'', ''Lee-Park''), (''email'', ''ann@x.org''),
      (''dob'', ''2004-05-06''), (''enrollmentDate'', ''2023-09-01''), (''major'', []),
      (''program'', ''BSc''), (''gpa'', ''3.6''), (''password'', []), (''confirmPassword'', [])]"






section \<open>Properties\<close>

subsection \<open>Loading a file that cannot be used\<close>

lemma load_rows_read_failure:
  "fst (load_rows store fns kf d (rows @ Broken # later)) = fst (load_rows store fns kf d rows)"
  by (induction store fns kf d rows rule: load_rows.induct)
     (auto simp: Let_def split: option.splits pyval.splits prod.splits)

text \<open>
  Claim C9, as the code has it. \<^verbatim>\<open>load_data_from_csv\<close> is a total function: no
  exception leaves it. It returns the dictionary it was given, with one message
  printed, when the file does not exist, is empty or starts with a blank line, cannot
  be read at its first row, or has a header without the key field. Once the header has
  passed these checks the dictionary is cleared and filled from the rows; a read that
  fails after the header stops the loop, and the dictionary then holds what the rows
  before the failure stored, not its prior contents.
\<close>

theorem load_data_from_csv_unusable_file:
  "(fs p = None \<longrightarrow> load_data_from_csv fs p d kf store = (d, [FileNotFound])) \<and>
   (fs p = Some [] \<longrightarrow> load_data_from_csv fs p d kf store = (d, [EmptyOrNoHeaders])) \<and>
   (fs p = Some (Cells [] # rest) \<longrightarrow>
      load_data_from_csv fs p d kf store = (d, [EmptyOrNoHeaders])) \<and>
   (fs p = Some (Broken # rest) \<longrightarrow> load_data_from_csv fs p d kf store = (d, [LoadError])) \<and>
   (fs p = Some (Cells hs # rest) \<and> hs \<noteq> [] \<and> kf \<notin> set (map universal_newlines hs) \<longrightarrow>
      load_data_from_csv fs p d kf store = (d, [KeyFieldMissing])) \<and>
   (fs p = Some (Cells hs # rest) \<and> hs \<noteq> [] \<and> kf \<in> set (map universal_newlines hs) \<longrightarrow>
      load_data_from_csv fs p d kf store = load_rows store (map universal_newlines hs) kf [] rest) \<and>
   (fs p = Some (Cells hs # rows @ Broken # later) \<and> hs \<noteq> [] \<and>
    kf \<in> set (map universal_newlines hs) \<longrightarrow>
      fst (load_data_from_csv fs p d kf store) =
        fst (load_rows store (map universal_newlines hs) kf [] rows))"
  by (simp add: load_data_from_csv_def Let_def load_rows_read_failure)

theorem load_data_from_csv_unusable_file_witness:
  "load_data_from_csv Map.empty ''students.csv'' [(''S1'', [Some ''studentId'' \<mapsto> PStr ''S1''])]
     ''studentId'' store_single
     = ([(''S1'', [Some ''studentId'' \<mapsto> PStr ''S1''])], [FileNotFound]) \<and>
   load_data_from_csv [''up.csv'' \<mapsto> [Cells [''name'', ''email''], Cells [''Ann'', ''a@x.org'']]]
     ''up.csv'' [(''S1'', [Some ''studentId'' \<mapsto> PStr ''S1''])] ''studentId'' store_single
     = ([(''S1'', [Some ''studentId'' \<mapsto> PStr ''S1''])], [KeyFieldMissing]) \<and>
   load_data_from_csv [''up.csv'' \<mapsto> [Broken]]
     ''up.csv'' [(''S1'', [Some ''studentId'' \<mapsto> PStr ''S1''])] ''studentId'' store_single
     = ([(''S1'', [Some ''studentId'' \<mapsto> PStr ''S1''])], [LoadError]) \<and>
   load_data_from_csv [''up.csv'' \<mapsto> []]
     ''up.csv'' ([] :: pyrec dict) ''studentId'' store_single
     = ([], [EmptyOrNoHeaders])"
  using
    load_data_from_csv_unusable_file
      [of Map.empty "''students.csv''" "[(''S1'', [Some ''studentId'' \<mapsto> PStr ''S1''])]"
          "''studentId''" store_single "[]" "[]" "[]" "[]"]
    load_data_from_csv_unusable_file
      [of "[''up.csv'' \<mapsto> [Cells [''name'', ''email''], Cells [''Ann'', ''a@x.org'']]]" "''up.csv''"
          "[(''S1'', [Some ''studentId'' \<mapsto> PStr ''S1''])]" "''studentId''" store_single
          "[Cells [''Ann'', ''a@x.org'']]" "[''name'', ''email'']" "[]" "[]"]
    load_data_from_csv_unusable_file
      [of "[''up.csv'' \<mapsto> [Broken]]" "''up.csv''"
          "[(''S1'', [Some ''studentId'' \<mapsto> PStr ''S1''])]" "''studentId''" store_single
          "[]" "[]" "[]" "[]"]
    load_data_from_csv_unusable_file
      [of "[''up.csv'' \<mapsto> []]" "''up.csv''" "[] :: pyrec dict" "''studentId''" store_single
          "[]" "[]" "[]" "[]"]
  by simp

text \<open>
  A file whose third row cannot be read is loaded over a dictionary that holds the
  student S1: afterwards the dictionary holds S2 and no longer S1.
\<close>

theorem load_data_from_csv_read_failure_counterexample:
  "load_data_from_csv
     [''students.csv'' \<mapsto> [Cells [''studentId''], Cells [''S2''], Broken]]
     ''students.csv'' [(''S1'', [Some ''studentId'' \<mapsto> PStr ''S1''])] ''studentId'' store_single
   = ([(''S2'', [Some ''studentId'' \<mapsto> PStr ''S2''])], [LoadError]) \<and>
   [(''S2'', [Some ''studentId'' \<mapsto> PStr ''S2''])] \<noteq>
   [(''S1'', [Some ''studentId'' \<mapsto> PStr ''S1''])]"
  by (simp add: load_data_from_csv_def Let_def store_single_def dict_row_def)

subsection \<open>Attendance percentage\<close>

lemma py_round_of_int [simp]: "py_round (of_int n) = n"
  by (simp add: py_round_def Let_def)

text \<open>
  What each view computes: the page counts the records with a subject and the status
  \<^verbatim>\<open>Present\<close>, the two faculty views the records with the status \<^verbatim>\<open>Present\<close> or
  \<^verbatim>\<open>Late\<close>.
\<close>

lemma attendance_loop_present:
  "present_count (attendance_loop rs c) =
     present_count c +
     length (filter (\<lambda>r. truthy (rget r ''courseName'') \<and> rget r ''status'' = PStr ''Present'') rs)"
  by (induction rs arbitrary: c) (auto simp: Let_def)

lemma attendance_overall_perc_present:
  "attendance_overall_perc rs =
     py_round (percent
       (length (filter (\<lambda>r. truthy (rget r ''courseName'') \<and> rget r ''status'' = PStr ''Present'') rs))
       (length rs))"
  by (simp add: attendance_overall_perc_def attendance_counts_def attendance_loop_present)

lemma faculty_views_count_late:
  "view_student_overall_attendance rs =
     py_round (percent (length (filter present_or_late rs)) (length rs))"
  "manage_students_attendance rs =
     py_round (percent (length (filter present_or_late rs)) (length rs))"
  by (simp_all add: view_student_overall_attendance_def manage_students_attendance_def Let_def)

text \<open>
  Claim C1 at a student whose only attendance record has the status \<^verbatim>\<open>Late\<close>. The
  student's attendance page reports an overall percentage of 0, while the summary per
  subject on the same page, the faculty's view of the student and the student listing
  report 100.
\<close>

theorem attendance_overall_perc_skips_late:
  "attendance_overall_perc
     [[Some ''studentId'' \<mapsto> PStr ''S1'', Some ''courseName'' \<mapsto> PStr ''Math'',
       Some ''date'' \<mapsto> PStr ''2024-01-08'', Some ''status'' \<mapsto> PStr ''Late'',
       Some ''instructor'' \<mapsto> PStr ''Prof. Davis'']] = 0 \<and>
   attendance_subject_summary
     [[Some ''studentId'' \<mapsto> PStr ''S1'', Some ''courseName'' \<mapsto> PStr ''Math'',
       Some ''date'' \<mapsto> PStr ''2024-01-08'', Some ''status'' \<mapsto> PStr ''Late'',
       Some ''instructor'' \<mapsto> PStr ''Prof. Davis'']] = [(PStr ''Math'', 100)] \<and>
   view_student_overall_attendance
     [[Some ''studentId'' \<mapsto> PStr ''S1'', Some ''courseName'' \<mapsto> PStr ''Math'',
       Some ''date'' \<mapsto> PStr ''2024-01-08'', Some ''status'' \<mapsto> PStr ''Late'',
       Some ''instructor'' \<mapsto> PStr ''Prof. Davis'']] = 100 \<and>
   manage_students_attendance
     [[Some ''studentId'' \<mapsto> PStr ''S1'', Some ''courseName'' \<mapsto> PStr ''Math'',
       Some ''date'' \<mapsto> PStr ''2024-01-08'', Some ''status'' \<mapsto> PStr ''Late'',
       Some ''instructor'' \<mapsto> PStr ''Prof. Davis'']] = 100"
  by (simp add: Let_def attendance_overall_perc_def attendance_counts_def
      attendance_subject_summary_def view_student_overall_attendance_def
      manage_students_attendance_def rget_def percent_def present_or_late_def py_round_def)

subsection \<open>Average score\<close>

lemma float_of_digits_85: "float_of_digits ''85'' = Some 85"
  by (simp add: float_of_digits_def digits_value_def is_digit_def)

lemma float_of_digits_95: "float_of_digits ''95'' = Some 95"
  by (simp add: float_of_digits_def digits_value_def is_digit_def)

lemma float_of_digits_abc: "float_of_digits ''abc'' = None"
  by (simp add: float_of_digits_def digits_value_def is_digit_def)

text \<open>
  What each view computes: the grades page and the student listing divide the sum of
  the parsed scores by their number, the dashboard by the number of all grade records.
\<close>

lemma score_loop_parsed:
  "score_loop pf gs (t, n) =
     (t + sum_list (parsed_scores pf gs), n + length (parsed_scores pf gs))"
  by (induction gs arbitrary: t n)
     (auto simp: parsed_scores_def List.map_filter_simps Let_def split: option.splits)

lemma grades_overall_grade_parsed:
  "grades_overall_grade pf gs =
     round2 (if parsed_scores pf gs = [] then 0
             else sum_list (parsed_scores pf gs) / of_nat (length (parsed_scores pf gs)))"
  "manage_students_grade pf gs =
     round2 (if parsed_scores pf gs = [] then 0
             else sum_list (parsed_scores pf gs) / of_nat (length (parsed_scores pf gs)))"
  "student_dashboard_overall_grade pf gs =
     round2 (if gs = [] then 0 else sum_list (parsed_scores pf gs) / of_nat (length gs))"
  by (simp_all add: grades_overall_grade_def manage_students_grade_def
      student_dashboard_overall_grade_def score_loop_parsed)

text \<open>
  Claim C2 at a student with the scores \<^verbatim>\<open>"85"\<close> and \<^verbatim>\<open>"abc"\<close>. The grades page
  and the student listing skip the second record and report 85; the dashboard divides
  the total by the number of all records and reports 42.5. With the scores
  \<^verbatim>\<open>"85"\<close> and \<^verbatim>\<open>"95"\<close> the three views report 90.
\<close>

theorem student_dashboard_counts_unparsed_scores:
  "student_dashboard_overall_grade float_of_digits
     [[Some ''studentId'' \<mapsto> PStr ''S1'', Some ''courseName'' \<mapsto> PStr ''Math'',
       Some ''score'' \<mapsto> PStr ''85''],
      [Some ''studentId'' \<mapsto> PStr ''S1'', Some ''courseName'' \<mapsto> PStr ''Math'',
       Some ''score'' \<mapsto> PStr ''abc'']] = 85 / 2 \<and>
   grades_overall_grade float_of_digits
     [[Some ''studentId'' \<mapsto> PStr ''S1'', Some ''courseName'' \<mapsto> PStr ''Math'',
       Some ''score'' \<mapsto> PStr ''85''],
      [Some ''studentId'' \<mapsto> PStr ''S1'', Some ''courseName'' \<mapsto> PStr ''Math'',
       Some ''score'' \<mapsto> PStr ''abc'']] = 85 \<and>
   manage_students_grade float_of_digits
     [[Some ''studentId'' \<mapsto> PStr ''S1'', Some ''courseName'' \<mapsto> PStr ''Math'',
       Some ''score'' \<mapsto> PStr ''85''],
      [Some ''studentId'' \<mapsto> PStr ''S1'', Some ''courseName'' \<mapsto> PStr ''Math'',
       Some ''score'' \<mapsto> PStr ''abc'']] = 85 \<and>
   student_dashboard_overall_grade float_of_digits
     [[Some ''studentId'' \<mapsto> PStr ''S1'', Some ''courseName'' \<mapsto> PStr ''Math'',
       Some ''score'' \<mapsto> PStr ''85''],
      [Some ''studentId'' \<mapsto> PStr ''S1'', Some ''courseName'' \<mapsto> PStr ''Math'',
       Some ''score'' \<mapsto> PStr ''95'']] = 90 \<and>
   grades_overall_grade float_of_digits
     [[Some ''studentId'' \<mapsto> PStr ''S1'', Some ''courseName'' \<mapsto> PStr ''Math'',
       Some ''score'' \<mapsto> PStr ''85''],
      [Some ''studentId'' \<mapsto> PStr ''S1'', Some ''courseName'' \<mapsto> PStr ''Math'',
       Some ''score'' \<mapsto> PStr ''95'']] = 90 \<and>
   manage_students_grade float_of_digits
     [[Some ''studentId'' \<mapsto> PStr ''S1'', Some ''courseName'' \<mapsto> PStr ''Math'',
       Some ''score'' \<mapsto> PStr ''85''],
      [Some ''studentId'' \<mapsto> PStr ''S1'', Some ''courseName'' \<mapsto> PStr ''Math'',
       Some ''score'' \<mapsto> PStr ''95'']] = 90"
  by (simp add: Let_def student_dashboard_overall_grade_def grades_overall_grade_def
      manage_students_grade_def rget_def float_of_digits_85 float_of_digits_95
      float_of_digits_abc round2_def py_round_def)

subsection \<open>Deleting a student\<close>

lemma map_of_dict_pop: "map_of (dict_pop d k) k' = (if k' = k then None else map_of d k')"
  unfolding dict_pop_def by (induction d) auto

text \<open>
  Claim C7. After \<^verbatim>\<open>delete_student\<close> has run for a faculty session, the id is a key
  of none of the four dictionaries, whatever happens to the file; when
  \<^verbatim>\<open>students.csv\<close> does not exist the handler reports the removal from memory and
  leaves the disk alone.
\<close>

theorem delete_student_removes_everywhere:
  assumes "check_faculty_auth sess"
  shows "\<not> dict_has (student_profile_data (fst (delete_student st sess student_id))) student_id \<and>
         \<not> dict_has (student_login_data (fst (delete_student st sess student_id))) student_id \<and>
         \<not> dict_has (student_grades_data (fst (delete_student st sess student_id))) student_id \<and>
         \<not> dict_has (student_attendance_data (fst (delete_student st sess student_id))) student_id \<and>
         (disk st ''students.csv'' = None \<longrightarrow>
            snd (delete_student st sess student_id) = StudentRemovedNoFile \<and>
            disk (fst (delete_student st sess student_id)) = disk st)"
  using assms
  by (simp add: delete_student_def Let_def dict_has_def map_of_dict_pop split: option.splits)

theorem delete_student_removes_everywhere_witness:
  "check_faculty_auth faculty_session \<and>
   dict_has (student_profile_data example_store) ''S1'' \<and>
   \<not> dict_has (student_profile_data (fst (delete_student example_store faculty_session ''S1''))) ''S1'' \<and>
   \<not> dict_has (student_login_data (fst (delete_student example_store faculty_session ''S1''))) ''S1'' \<and>
   \<not> dict_has (student_grades_data (fst (delete_student example_store faculty_session ''S1''))) ''S1'' \<and>
   \<not> dict_has (student_attendance_data (fst (delete_student example_store faculty_session ''S1''))) ''S1'' \<and>
   snd (delete_student example_store faculty_session ''S1'') = StudentRemovedNoFile"
proof -
  have auth: "check_faculty_auth faculty_session"
    by (simp add: check_faculty_auth_def faculty_session_def)
  have nofile: "disk example_store ''students.csv'' = None"
    by (simp add: example_store_def)
  have before: "dict_has (student_profile_data example_store) ''S1''"
    by (simp add: example_store_def dict_has_def)
  show ?thesis
    using auth before nofile delete_student_removes_everywhere [OF auth, of example_store "''S1''"]
    by simp
qed

subsection \<open>Authorization for a course\<close>

lemma map_of_dict_set: "map_of (dict_set d k v) k' = (if k' = k then Some v else map_of d k')"
  by (induction d k v rule: dict_set.induct) auto

lemma authorized_loop_find:
  "truthy course_name \<Longrightarrow>
   authorized_loop courses faculty_id course_name =
     (case find (\<lambda>(code, details). rget details ''courseName'' = course_name) courses of
        None \<Rightarrow> True
      | Some (code, details) \<Rightarrow>
          \<not> truthy (rget details ''facultyId'') \<or> rget details ''facultyId'' = faculty_id)"
  by (induction courses faculty_id course_name rule: authorized_loop.induct)
     (auto simp: Let_def)

text \<open>
  Claim C10. \<^verbatim>\<open>is_faculty_authorized_for_course\<close> is false when the faculty id or the
  course name is empty. Otherwise it looks at the first entry of \<^verbatim>\<open>course_data\<close>
  with that course name: without such an entry, or when the entry has no faculty id,
  it is true; with a faculty id it is true exactly when the id is the caller's. So a
  faculty session with a user id passes the check of \<^verbatim>\<open>enroll_student\<close> for every
  inferred or unassigned course, and the student is enrolled when the student exists,
  has no record for the course yet and the attendance file can be written.
\<close>

theorem is_faculty_authorized_for_course_cases:
  "(\<not> truthy faculty_id \<or> \<not> truthy course_name \<longrightarrow>
      \<not> is_faculty_authorized_for_course courses faculty_id course_name) \<and>
   (truthy faculty_id \<and> truthy course_name \<longrightarrow>
      is_faculty_authorized_for_course courses faculty_id course_name =
        (case find (\<lambda>(code, details). rget details ''courseName'' = course_name) courses of
           None \<Rightarrow> True
         | Some (code, details) \<Rightarrow>
             \<not> truthy (rget details ''facultyId'') \<or> rget details ''facultyId'' = faculty_id)) \<and>
   (check_faculty_auth sess \<and> session_user_id sess = Some u \<and> u \<noteq> [] \<and>
    form_get data ''course_name'' [] = c \<and> c \<noteq> [] \<and>
    form_get data ''student_id_to_add'' [] = sid \<and> sid \<noteq> [] \<and>
    (case find (\<lambda>(code, details). rget details ''courseName'' = PStr c) (course_data st) of
       None \<Rightarrow> True
     | Some (code, details) \<Rightarrow> \<not> truthy (rget details ''facultyId'')) \<longrightarrow>
      snd (enroll_student today st sess data) \<noteq> NotAuthorizedForCourse \<and>
      (dict_has (student_profile_data st) sid \<and>
       \<not> list_ex (\<lambda>g. rget g ''courseName'' = PStr c)
            (case map_of (student_grades_data st) sid of None \<Rightarrow> [] | Some gs \<Rightarrow> gs) \<and>
       \<not> list_ex (\<lambda>a. rget a ''courseName'' = PStr c)
            (case map_of (student_attendance_data st) sid of None \<Rightarrow> [] | Some rs \<Rightarrow> rs) \<and>
       ATTENDANCE_CSV \<notin> locked st \<longrightarrow>
         snd (enroll_student today st sess data) = StudentEnrolled \<and>
         map_of (student_attendance_data (fst (enroll_student today st sess data))) sid =
           Some ((case map_of (student_attendance_data st) sid of None \<Rightarrow> [] | Some rs \<Rightarrow> rs) @
                 [attendance_record sid c today ''Present''
                    (PStr (case session_name sess of None \<Rightarrow> ''?'' | Some n \<Rightarrow> n))])))"
proof (intro conjI impI)
  show "\<not> truthy faculty_id \<or> \<not> truthy course_name \<Longrightarrow>
      \<not> is_faculty_authorized_for_course courses faculty_id course_name"
    by (auto simp: is_faculty_authorized_for_course_def)
next
  show "truthy faculty_id \<and> truthy course_name \<Longrightarrow>
      is_faculty_authorized_for_course courses faculty_id course_name =
        (case find (\<lambda>(code, details). rget details ''courseName'' = course_name) courses of
           None \<Rightarrow> True
         | Some (code, details) \<Rightarrow>
             \<not> truthy (rget details ''facultyId'') \<or> rget details ''facultyId'' = faculty_id)"
    by (simp add: is_faculty_authorized_for_course_def authorized_loop_find)
next
  assume a: "check_faculty_auth sess \<and> session_user_id sess = Some u \<and> u \<noteq> [] \<and>
    form_get data ''course_name'' [] = c \<and> c \<noteq> [] \<and>
    form_get data ''student_id_to_add'' [] = sid \<and> sid \<noteq> [] \<and>
    (case find (\<lambda>(code, details). rget details ''courseName'' = PStr c) (course_data st) of
       None \<Rightarrow> True
     | Some (code, details) \<Rightarrow> \<not> truthy (rget details ''facultyId''))"
  then have auth:
    "is_faculty_authorized_for_course (course_data st) (of_opt (session_user_id sess)) (PStr c)"
    by (auto simp: is_faculty_authorized_for_course_def authorized_loop_find of_opt_def
        split: option.splits)
  with a show "snd (enroll_student today st sess data) \<noteq> NotAuthorizedForCourse"
    by (auto simp: enroll_student_def Let_def)
  assume b: "dict_has (student_profile_data st) sid \<and>
       \<not> list_ex (\<lambda>g. rget g ''courseName'' = PStr c)
            (case map_of (student_grades_data st) sid of None \<Rightarrow> [] | Some gs \<Rightarrow> gs) \<and>
       \<not> list_ex (\<lambda>a. rget a ''courseName'' = PStr c)
            (case map_of (student_attendance_data st) sid of None \<Rightarrow> [] | Some rs \<Rightarrow> rs) \<and>
       ATTENDANCE_CSV \<notin> locked st"
  with a auth show "snd (enroll_student today st sess data) = StudentEnrolled"
    by (simp add: enroll_student_def Let_def)
  from a b auth
  show "map_of (student_attendance_data (fst (enroll_student today st sess data))) sid =
           Some ((case map_of (student_attendance_data st) sid of None \<Rightarrow> [] | Some rs \<Rightarrow> rs) @
                 [attendance_record sid c today ''Present''
                    (PStr (case session_name sess of None \<Rightarrow> ''?'' | Some n \<Rightarrow> n))])"
    by (simp add: enroll_student_def Let_def map_of_dict_set)
qed

theorem is_faculty_authorized_for_course_cases_witness:
  "\<not> is_faculty_authorized_for_course (course_data example_store) (PStr []) (PStr ''Algorithms'') \<and>
   is_faculty_authorized_for_course (course_data example_store) (PStr ''prof_davis'') (PStr ''Algorithms'') \<and>
   \<not> is_faculty_authorized_for_course (course_data example_store) (PStr ''prof_lee'') (PStr ''Algorithms'') \<and>
   is_faculty_authorized_for_course (course_data example_store) (PStr ''prof_lee'') (PStr ''History'') \<and>
   snd (enroll_student ''2024-02-01'' example_store faculty_session
          [(''course_name'', ''History''), (''student_id_to_add'', ''S1'')]) = StudentEnrolled"
  using
    is_faculty_authorized_for_course_cases
      [where faculty_id = "PStr []" and course_name = "PStr ''Algorithms''"
         and courses = "course_data example_store"]
    is_faculty_authorized_for_course_cases
      [where faculty_id = "PStr ''prof_davis''" and course_name = "PStr ''Algorithms''"
         and courses = "course_data example_store"]
    is_faculty_authorized_for_course_cases
      [where faculty_id = "PStr ''prof_lee''" and course_name = "PStr ''Algorithms''"
         and courses = "course_data example_store"]
    is_faculty_authorized_for_course_cases
      [where faculty_id = "PStr ''prof_lee''" and course_name = "PStr ''History''"
         and courses = "course_data example_store" and sess = faculty_session
         and u = "''prof_davis''" and c = "''History''" and sid = "''S1''"
         and data = "[(''course_name'', ''History''), (''student_id_to_add'', ''S1'')]"
         and st = example_store and today = "''2024-02-01''"]
  by (simp add: example_store_def faculty_session_def check_faculty_auth_def form_get_def
      dict_has_def rget_def attendance_record_def ATTENDANCE_CSV_def)

subsection \<open>Course listings\<close>





subsection \<open>Logins in step with profiles\<close>

lemma set_dict_set:
  "kv \<in> set (dict_set d k v) \<Longrightarrow> kv = (k, v) \<or> kv \<in> set d"
  by (induction d k v rule: dict_set.induct) (auto split: if_splits)

lemma set_dict_set_ok:
  "dict_ok d \<Longrightarrow> kv \<in> set (dict_set d k v) \<Longrightarrow> kv = (k, v) \<or> (kv \<in> set d \<and> fst kv \<noteq> k)"
  unfolding dict_ok_def
  by (induction d k v rule: dict_set.induct) (auto split: if_splits simp: image_iff)

lemma dict_ok_Nil [simp]: "dict_ok []"
  by (simp add: dict_ok_def)

lemma keys_dict_set:
  "map fst (dict_set d k v) = (if k \<in> set (map fst d) then map fst d else map fst d @ [k])"
  by (induction d k v rule: dict_set.induct) auto

lemma dict_ok_dict_set: "dict_ok d \<Longrightarrow> dict_ok (dict_set d k v)"
  by (simp add: dict_ok_def keys_dict_set)

lemma dict_ok_dict_pop: "dict_ok d \<Longrightarrow> dict_ok (dict_pop d k)"
  by (simp add: dict_ok_def dict_pop_def distinct_map_filter)

lemma set_dict_pop: "set (dict_pop d k) = {kv \<in> set d. fst kv \<noteq> k}"
  by (auto simp: dict_pop_def)

lemma dict_ok_load_rows:
  "dict_ok d \<Longrightarrow> dict_ok (fst (load_rows store_single fns kf d rows))"
  by (induction store_single fns kf d rows rule: load_rows.induct)
     (auto simp: Let_def store_single_def dict_ok_dict_set split: option.splits pyval.splits prod.splits)

lemma dict_ok_load:
  "dict_ok d \<Longrightarrow> dict_ok (fst (load_data_from_csv fs p d kf store_single))"
  by (auto simp: load_data_from_csv_def Let_def dict_ok_load_rows
      split: option.splits list.splits line.splits)

lemma passwords_synced_alt: "passwords_synced profiles logins = (\<forall>e \<in> set logins. entry_ok profiles e)"
  by (simp add: passwords_synced_def list_all_iff)

lemma upload_fold:
  assumes "dict_ok profiles" "set ps \<subseteq> set profiles" "\<forall>e \<in> set acc. entry_ok profiles e"
  shows "\<forall>e \<in> set (fold (\<lambda>(student_id, profile) logins.
             if has_key profile ''password''
             then dict_set logins student_id (login_entry (rget profile ''password''))
             else logins) ps acc). entry_ok profiles e"
  using assms
proof (induction ps arbitrary: acc)
  case Nil
  then show ?case by simp
next
  case (Cons a ps)
  obtain k pr where a: "a = (k, pr)" by (cases a)
  with Cons.prems have m: "map_of profiles k = Some pr"
    by (simp add: dict_ok_def)
  show ?case
  proof (cases "has_key pr ''password''")
    case True
    have "entry_ok profiles (k, login_entry (rget pr ''password''))"
      using True m by (auto simp: entry_ok_def login_entry_def has_key_def rget_def)
    then have "\<forall>e \<in> set (dict_set acc k (login_entry (rget pr ''password''))). entry_ok profiles e"
      using Cons.prems(3) by (auto dest: set_dict_set)
    with Cons.IH[OF Cons.prems(1)] Cons.prems(2) a True show ?thesis by simp
  next
    case False
    with Cons.IH[OF Cons.prems(1)] Cons.prems a show ?thesis by simp
  qed
qed

lemma startup_fold:
  assumes "dict_ok profiles" "set ps \<subseteq> set profiles" "\<forall>e \<in> set acc. entry_ok profiles e"
  shows "\<forall>e \<in> set (fold (\<lambda>(student_id, profile) logins.
             if truthy (rget profile ''password'')
             then dict_set logins student_id (login_entry (rget profile ''password''))
             else logins) ps acc). entry_ok profiles e"
  using assms
proof (induction ps arbitrary: acc)
  case Nil
  then show ?case by simp
next
  case (Cons a ps)
  obtain k pr where a: "a = (k, pr)" by (cases a)
  with Cons.prems have m: "map_of profiles k = Some pr"
    by (simp add: dict_ok_def)
  show ?case
  proof (cases "truthy (rget pr ''password'')")
    case True
    have "entry_ok profiles (k, login_entry (rget pr ''password''))"
      using True m by (auto simp: entry_ok_def login_entry_def rget_def split: option.splits)
    then have "\<forall>e \<in> set (dict_set acc k (login_entry (rget pr ''password''))). entry_ok profiles e"
      using Cons.prems(3) by (auto dest: set_dict_set)
    with Cons.IH[OF Cons.prems(1)] Cons.prems(2) a True show ?thesis by simp
  next
    case False
    with Cons.IH[OF Cons.prems(1)] Cons.prems a show ?thesis by simp
  qed
qed


lemma dict_ok_upload_fold:
  "dict_ok acc \<Longrightarrow> dict_ok (fold (\<lambda>(student_id, profile) logins.
             if P profile
             then dict_set logins student_id (f profile)
             else logins) ps acc)"
  by (induction ps arbitrary: acc) (auto simp: dict_ok_dict_set)

lemma synced_upload: "dict_ok profiles \<Longrightarrow> dict_ok (upload_logins profiles) \<and> passwords_synced profiles (upload_logins profiles)"
  unfolding upload_logins_def passwords_synced_alt
  using upload_fold[of profiles profiles "[]"] dict_ok_upload_fold[of "[]"]
  by simp

lemma synced_startup: "dict_ok profiles \<Longrightarrow> dict_ok (startup_logins profiles) \<and> passwords_synced profiles (startup_logins profiles)"
  unfolding startup_logins_def passwords_synced_alt
  using startup_fold[of profiles profiles "[]"] dict_ok_upload_fold[of "[]"]
  by simp

lemma synced_set:
  assumes "dict_ok profiles" "dict_ok logins" "passwords_synced profiles logins"
    and "l (Some ''password'') \<noteq> None" "l (Some ''password'') = r (Some ''password'')"
  shows "passwords_synced (dict_set profiles k r) (dict_set logins k l)"
  unfolding passwords_synced_alt
proof
  fix e assume "e \<in> set (dict_set logins k l)"
  then consider "e = (k, l)" | "e \<in> set logins" "fst e \<noteq> k"
    using set_dict_set_ok[OF assms(2)] by blast
  then show "entry_ok (dict_set profiles k r) e"
  proof cases
    case 1
    then show ?thesis using assms(4,5) by (simp add: entry_ok_def map_of_dict_set)
  next
    case 2
    then show ?thesis using assms(3) by (auto simp: passwords_synced_alt entry_ok_def map_of_dict_set)
  qed
qed

lemma synced_pop:
  assumes "passwords_synced profiles logins"
  shows "passwords_synced (dict_pop profiles k) (dict_pop logins k)"
  using assms unfolding passwords_synced_alt
  by (auto simp: set_dict_pop entry_ok_def map_of_dict_pop)

lemma create_student_synced:
  "login_synced st \<Longrightarrow> login_synced (fst (create_student st sess data))"
  by (auto simp: create_student_def Let_def login_synced_def dict_ok_dict_set synced_set
      student_record_def login_entry_def split: option.splits)

lemma update_student_synced:
  "login_synced st \<Longrightarrow> login_synced (fst (update_student st sess student_id data))"
  by (auto simp: update_student_def Let_def login_synced_def dict_ok_dict_set synced_set
      login_entry_def split: option.splits)

lemma delete_student_synced:
  "login_synced st \<Longrightarrow> login_synced (fst (delete_student st sess student_id))"
  by (auto simp: delete_student_def Let_def login_synced_def dict_ok_dict_pop synced_pop
      split: option.splits)

lemma upload_student_data_synced:
  "login_synced st \<Longrightarrow> login_synced (fst (upload_student_data secure_filename st sess file))"
  using dict_ok_load synced_upload
  by (auto simp: upload_student_data_def Let_def login_synced_def 
      split: option.splits prod.splits) (metis fst_conv)+

lemma startup_synced:
  "dict_ok (student_profile_data st) \<Longrightarrow> login_synced (startup st)"
  using dict_ok_load synced_startup
  by (auto simp: startup_def Let_def login_synced_def split: prod.splits) (metis fst_conv)+

lemma login_synced_password:
  assumes "login_synced st" "map_of (student_login_data st) student_id = Some login"
  shows "\<exists>profile. map_of (student_profile_data st) student_id = Some profile \<and>
           rget login ''password'' = rget profile ''password''"
proof -
  from assms(2) have "(student_id, login) \<in> set (student_login_data st)"
    by (rule map_of_SomeD)
  with assms(1) have "entry_ok (student_profile_data st) (student_id, login)"
    by (auto simp: login_synced_def passwords_synced_alt)
  then show ?thesis
    by (auto simp: entry_ok_def rget_def split: option.splits)
qed

lemma example_store_synced: "login_synced example_store"
  by (simp add: login_synced_def example_store_def dict_ok_def passwords_synced_def entry_ok_def
      login_entry_def example_profile_def)

text \<open>
  Claim C5. The logins are in step with the profiles (\<open>login_synced\<close>: every login
  entry has a profile under its id, and its password is the one the profile stores)
  after the start of the server whatever the dictionaries held, and each of
  \<^verbatim>\<open>create_student\<close>, \<^verbatim>\<open>update_student\<close>, \<^verbatim>\<open>delete_student\<close> and
  \<^verbatim>\<open>upload_student_data\<close> keeps them in step, on every path through the handler.
\<close>

theorem login_passwords_stay_synced:
  assumes "login_synced st"
  shows "login_synced (fst (create_student st sess data)) \<and>
         login_synced (fst (update_student st sess student_id data')) \<and>
         login_synced (fst (delete_student st sess student_id)) \<and>
         login_synced (fst (upload_student_data secure_filename st sess file)) \<and>
         login_synced (startup st) \<and>
         (\<forall>sid login. map_of (student_login_data st) sid = Some login \<longrightarrow>
            (\<exists>profile. map_of (student_profile_data st) sid = Some profile \<and>
               rget login ''password'' = rget profile ''password''))"
  using assms create_student_synced update_student_synced delete_student_synced
    upload_student_data_synced startup_synced login_synced_password
  by (simp add: login_synced_def)

theorem login_passwords_stay_synced_witness:
  "login_synced example_store \<and>
   snd (create_student example_store faculty_session new_student_form) = StudentAdded \<and>
   map_of (student_login_data (fst (create_student example_store faculty_session new_student_form)))
     ''S2'' = Some (login_entry (PStr ''pw2'')) \<and>
   login_synced (fst (create_student example_store faculty_session new_student_form)) \<and>
   login_synced (fst (update_student example_store faculty_session ''S1'' blank_password_form)) \<and>
   login_synced (fst (delete_student example_store faculty_session ''S1'')) \<and>
   login_synced (startup example_store)"
proof -
  have strips: "strip ''S2'' = ''S2''" "strip ''pw2'' = ''pw2''" "strip ''Bo'' = ''Bo''"
    "strip ''Kim'' = ''Kim''" "strip ''bo@x.org'' = ''bo@x.org''"
    by (simp_all add: strip_def is_space_def)
  have added: "snd (create_student example_store faculty_session new_student_form) = StudentAdded"
    by (simp add: create_student_def new_student_form_def example_store_def faculty_session_def
        check_faculty_auth_def form_get_def strips dict_has_def Let_def choose_headers_def
        STUDENTS_CSV_def)
  have entry:
    "map_of (student_login_data (fst (create_student example_store faculty_session new_student_form)))
       ''S2'' = Some (login_entry (PStr ''pw2''))"
    by (simp add: create_student_def new_student_form_def example_store_def faculty_session_def
        check_faculty_auth_def form_get_def strips dict_has_def Let_def choose_headers_def
        STUDENTS_CSV_def)
  show ?thesis
    using added entry example_store_synced
      login_passwords_stay_synced [OF example_store_synced, of faculty_session new_student_form
        "''S1''" blank_password_form id None]
    by simp
qed

subsection \<open>Updating a student with a blank password\<close>




subsection \<open>Submitting attendance twice\<close>






























subsection \<open>Writing a file and loading it back\<close>








subsection \<open>The file after a rewrite\<close>



subsection \<open>Files as mirrors of the mappings\<close>

















end
